theory Spec2Isabelle
  imports Complex_Main "HOL-Library.Sublist"
begin

section \<open>Data model\<close>

text \<open>
  The pipeline core of \<^verbatim>\<open>mlflow/pipelines/pipeline.py\<close>. Steps, their classification and
  their execution state are declared in \<^verbatim>\<open>mlflow/pipelines/step.py\<close>, which the pipeline
  module imports; what the pipeline module reads of them is kept here.
\<close>

text \<open>
  Modelled from the spec: the members of the enum \<^verbatim>\<open>StepClass\<close>. The sources name
  \<^verbatim>\<open>StepClass.UNKNOWN\<close> (pipeline.py) and \<^verbatim>\<open>StepClass.TRAINING\<close> (split.py); the spec adds a
  scoring path.
\<close>

datatype StepClass = UNKNOWN | TRAINING | SCORING

text \<open>
  Modelled from the spec: \<^verbatim>\<open>StepStatus\<close> and the persisted execution state
  (status, last\_updated\_timestamp, stack\_trace); pipeline.py reads \<^verbatim>\<open>status\<close> and
  \<^verbatim>\<open>stack_trace\<close> of it.
\<close>

datatype StepStatus = STATUS_UNKNOWN | SUCCEEDED | FAILED

record execution_state =
  status :: StepStatus
  last_updated_timestamp :: nat
  stack_trace :: "string option"

text \<open>
  An artifact as split.py constructs it:
  \<^verbatim>\<open>DataframeArtifact(name, pipeline_root, step_name, file_name)\<close>.
\<close>

datatype artifact = DataframeArtifact string string string string

fun artifact_name :: "artifact \<Rightarrow> string" where
  "artifact_name (DataframeArtifact n pipeline_root step_name file_name) = n"

text \<open>
  A step object, as far as the pipeline uses it: the property \<^verbatim>\<open>name\<close>, the value returned
  by the method \<^verbatim>\<open>step_class()\<close> and the list returned by \<^verbatim>\<open>get_artifacts()\<close>.
\<close>

record step =
  name :: string
  step_class :: StepClass
  get_artifacts :: "artifact list"

text \<open>The split step of split.py: its name, its class and its three artifacts.\<close>

definition SplitStep :: "string \<Rightarrow> step" where
  "SplitStep pipeline_root =
     \<lparr> name = ''split'',
       step_class = TRAINING,
       get_artifacts =
         [DataframeArtifact ''training_data'' pipeline_root ''split'' ''train.parquet'',
          DataframeArtifact ''validation_data'' pipeline_root ''split'' ''validation.parquet'',
          DataframeArtifact ''test_data'' pipeline_root ''split'' ''test.parquet''] \<rparr>"

text \<open>
  The fields of \<^verbatim>\<open>_BasePipeline\<close> set by \<^verbatim>\<open>__init__\<close>: \<^verbatim>\<open>_pipeline_root_path\<close>, \<^verbatim>\<open>_profile\<close>,
  \<^verbatim>\<open>_name\<close> (here \<open>pipeline_name\<close>), \<^verbatim>\<open>_steps\<close> and \<^verbatim>\<open>_template\<close>.
\<close>

record pipeline =
  pipeline_root_path :: string
  profile :: string
  pipeline_name :: string
  steps :: "step list"
  template :: "string option"

subsection \<open>Exceptions\<close>

datatype error_code = BAD_REQUEST | INVALID_PARAMETER_VALUE | INTERNAL_ERROR

text \<open>
  \<^verbatim>\<open>MlflowException(message, error_code=...)\<close>; the code is \<open>None\<close> where the raise gives none.
  \<open>ValueError\<close> is what \<^verbatim>\<open>list.index\<close> raises, \<open>ZeroDivisionError\<close> what a division
  by zero raises; \<open>Exception\<close> stands for whatever a collaborator outside this module
  raises.
\<close>

datatype exn =
    MlflowException string "error_code option"
  | ValueError
  | ZeroDivisionError
  | Exception string

subsection \<open>Python values and formatting\<close>

text \<open>
  The two kinds of value that meet in the guard of \<^verbatim>\<open>_get_subgraph_for_target_step\<close>:
  the attribute \<^verbatim>\<open>target_step.step_class\<close>, which is a bound method (the object and the
  method's name), and a member of the enum. \<^verbatim>\<open>==\<close> between a bound method and an enum
  member is False; two bound methods are equal when object and method agree; two enum
  members when they are the same member.
\<close>

datatype py_value = BoundMethod step string | EnumMember StepClass

fun py_eq :: "py_value \<Rightarrow> py_value \<Rightarrow> bool" where
  "py_eq (BoundMethod s m) (BoundMethod s' m') = (s = s' \<and> m = m')"
| "py_eq (EnumMember c) (EnumMember c') = (c = c')"
| "py_eq (BoundMethod s m) (EnumMember c) = False"
| "py_eq (EnumMember c) (BoundMethod s m) = False"

text \<open>\<^verbatim>\<open>", ".join(xs)\<close>\<close>

fun join_comma :: "string list \<Rightarrow> string" where
  "join_comma [] = []"
| "join_comma [x] = x"
| "join_comma (x # y # ys) = x @ '', '' @ join_comma (y # ys)"

text \<open>
  What an f-string prints for a list of strings: the \<^verbatim>\<open>repr\<close> of each element between
  brackets. The \<^verbatim>\<open>repr\<close> of a string (quoting and escaping) is Python's own and is taken
  as the parameter \<open>repr\<close>.
\<close>

definition py_list_repr :: "(string \<Rightarrow> string) \<Rightarrow> string list \<Rightarrow> string" where
  "py_list_repr repr xs = ''['' @ join_comma (map repr xs) @ '']''"

text \<open>What an f-string prints for an optional string: the string, or \<^verbatim>\<open>None\<close>.\<close>

fun py_str :: "string option \<Rightarrow> string" where
  "py_str None = ''None''"
| "py_str (Some s) = s"

text \<open>Truthiness of an optional string: \<^verbatim>\<open>None\<close> and the empty string are false.\<close>

fun truthy :: "string option \<Rightarrow> bool" where
  "truthy None = False"
| "truthy (Some s) = (s \<noteq> [])"

text \<open>\<^verbatim>\<open>xs.index(x)\<close>: the first position of \<open>x\<close>, \<open>None\<close> where Python raises ValueError.\<close>

fun index :: "'a list \<Rightarrow> 'a \<Rightarrow> nat option" where
  "index [] x = None"
| "index (y # ys) x = (if y = x then Some 0 else map_option Suc (index ys x))"

section \<open>Lookups of the pipeline\<close>

text \<open>\<^verbatim>\<open>_BasePipeline._get_step\<close>\<close>

definition get_step :: "(string \<Rightarrow> string) \<Rightarrow> pipeline \<Rightarrow> string \<Rightarrow> exn + step" where
  "get_step repr self step_name =
     (let step_names = map name (steps self) in
      if step_name \<notin> set step_names
      then Inl (MlflowException
                  (''Step '' @ step_name @ '' not found in pipeline. Available steps are ''
                     @ py_list_repr repr step_names) None)
      else (case index step_names step_name of
              None \<Rightarrow> Inl ValueError
            | Some i \<Rightarrow> Inr (steps self ! i)))"

text \<open>
  \<^verbatim>\<open>_BasePipeline._get_subgraph_for_target_step\<close>. The guard compares the attribute
  \<^verbatim>\<open>target_step.step_class\<close> (not called) with \<^verbatim>\<open>StepClass.UNKNOWN\<close>; the loop compares the
  results of the calls \<^verbatim>\<open>step_class()\<close>.
\<close>

fun subgraph_loop :: "step \<Rightarrow> step list \<Rightarrow> step list \<Rightarrow> step list" where
  "subgraph_loop target_step [] subgraph = subgraph"
| "subgraph_loop target_step (s # ss) subgraph =
     subgraph_loop target_step ss
       (if step_class target_step = step_class s then subgraph @ [s] else subgraph)"

definition get_subgraph_for_target_step :: "pipeline \<Rightarrow> step \<Rightarrow> step list" where
  "get_subgraph_for_target_step self target_step =
     (if py_eq (BoundMethod target_step ''step_class'') (EnumMember UNKNOWN) then []
      else subgraph_loop target_step (steps self) [])"

text \<open>
  \<^verbatim>\<open>_BasePipeline._get_artifact\<close>: the first artifact, in step order and then in the order
  of \<^verbatim>\<open>get_artifacts()\<close>, whose name is the requested one.
\<close>

fun artifact_loop :: "artifact list \<Rightarrow> string \<Rightarrow> artifact option" where
  "artifact_loop [] artifact_name' = None"
| "artifact_loop (a # as) artifact_name' =
     (if artifact_name a = artifact_name' then Some a else artifact_loop as artifact_name')"

fun step_loop :: "step list \<Rightarrow> string \<Rightarrow> artifact option" where
  "step_loop [] artifact_name' = None"
| "step_loop (s # ss) artifact_name' =
     (case artifact_loop (get_artifacts s) artifact_name' of
        Some a \<Rightarrow> Some a
      | None \<Rightarrow> step_loop ss artifact_name')"

definition get_artifact :: "pipeline \<Rightarrow> string \<Rightarrow> exn + artifact" where
  "get_artifact self artifact_name' =
     (case step_loop (steps self) artifact_name' of
        Some a \<Rightarrow> Inr a
      | None \<Rightarrow>
          Inl (MlflowException
                 (''The artifact with name '' @ [CHR 0x27] @ artifact_name' @ [CHR 0x27]
                    @ '' is not supported.'')
                 (Some INVALID_PARAMETER_VALUE)))"

section \<open>Collaborators outside the module\<close>

text \<open>
  What pipeline.py calls and does not define: the configuration loader, the step
  constructors (\<^verbatim>\<open>from_pipeline_config\<close> of each class of \<^verbatim>\<open>_get_step_classes()\<close>), the
  abstract \<^verbatim>\<open>_get_default_step\<close>, the execution utilities and the rendering. They read and
  change files, so each takes the state of the world \<open>'w\<close> and those that write return the
  new one; those that can raise return a sum. \<open>'c\<close> is the type of a loaded configuration.
  \<^verbatim>\<open>_get_pipeline_dag_file\<close> renders a template and writes the file: it is kept as one such
  effect. \<open>repr\<close> is Python's \<^verbatim>\<open>repr\<close> on strings.
\<close>

record ('w, 'c) externals =
  get_pipeline_config :: "'w \<Rightarrow> string \<Rightarrow> string \<Rightarrow> exn + 'c"
  set_profile :: "'c \<Rightarrow> string \<Rightarrow> 'c"
  get_step_classes :: "('c \<Rightarrow> string \<Rightarrow> exn + step) list"
  get_default_step :: "pipeline \<Rightarrow> exn + step"
  run_pipeline_step :: "'w \<Rightarrow> string \<Rightarrow> step list \<Rightarrow> step \<Rightarrow> string option \<Rightarrow> (exn + step) \<times> 'w"
  get_step_output_path :: "string \<Rightarrow> string \<Rightarrow> string \<Rightarrow> string"
  get_execution_state :: "'w \<Rightarrow> step \<Rightarrow> string \<Rightarrow> execution_state"
  step_inspect :: "'w \<Rightarrow> step \<Rightarrow> string \<Rightarrow> (exn + unit) \<times> 'w"
  get_pipeline_dag_file :: "'w \<Rightarrow> pipeline \<Rightarrow> (exn + string) \<times> 'w"
  display_html :: "'w \<Rightarrow> string \<Rightarrow> (exn + unit) \<times> 'w"
  clean_execution_state :: "'w \<Rightarrow> string \<Rightarrow> step list \<Rightarrow> (exn + unit) \<times> 'w"
  repr :: "string \<Rightarrow> string"

section \<open>The entry points of the pipeline\<close>

text \<open>
  \<^verbatim>\<open>_BasePipeline._resolve_pipeline_steps\<close>: load the configuration, store the profile in
  it, and construct one step per step class, in order; the first exception ends it.
\<close>

fun construct_steps :: "('c \<Rightarrow> string \<Rightarrow> exn + step) list \<Rightarrow> 'c \<Rightarrow> string \<Rightarrow> exn + step list" where
  "construct_steps [] pipeline_config pipeline_root = Inr []"
| "construct_steps (s # ss) pipeline_config pipeline_root =
     (case s pipeline_config pipeline_root of
        Inl e \<Rightarrow> Inl e
      | Inr x \<Rightarrow>
          (case construct_steps ss pipeline_config pipeline_root of
             Inl e \<Rightarrow> Inl e
           | Inr xs \<Rightarrow> Inr (x # xs)))"

definition resolve_pipeline_steps :: "('w, 'c) externals \<Rightarrow> 'w \<Rightarrow> pipeline \<Rightarrow> exn + step list" where
  "resolve_pipeline_steps ext w self =
     (case get_pipeline_config ext w (pipeline_root_path self) (profile self) of
        Inl e \<Rightarrow> Inl e
      | Inr pipeline_config \<Rightarrow>
          construct_steps (get_step_classes ext)
            (set_profile ext pipeline_config (profile self)) (pipeline_root_path self))"

text \<open>
  \<^verbatim>\<open>_BasePipeline.inspect\<close>. The result is what the call raises or returns, the world after
  it, and the pipeline object after it.
\<close>

definition inspect :: "('w, 'c) externals \<Rightarrow> 'w \<Rightarrow> pipeline \<Rightarrow> string option
    \<Rightarrow> (exn + unit) \<times> 'w \<times> pipeline" where
  "inspect ext w self step =
     (case resolve_pipeline_steps ext w self of
        Inl e \<Rightarrow> (Inl e, w, self)
      | Inr ss \<Rightarrow>
          (let self1 = self\<lparr>steps := ss\<rparr> in
           if \<not> truthy step then
             (case get_pipeline_dag_file ext w self1 of
                (Inl e, w1) \<Rightarrow> (Inl e, w1, self1)
              | (Inr html_file_path, w1) \<Rightarrow>
                  (case display_html ext w1 html_file_path of (r, w2) \<Rightarrow> (r, w2, self1)))
           else
             (let output_directory =
                    get_step_output_path ext (pipeline_root_path self1) (py_str step) [] in
              case get_step (repr ext) self1 (py_str step) of
                Inl e \<Rightarrow> (Inl e, w, self1)
              | Inr s \<Rightarrow>
                  (case step_inspect ext w s output_directory of (r, w1) \<Rightarrow> (r, w1, self1)))))"

text \<open>The two messages of \<^verbatim>\<open>run\<close>, as its f-strings build them.\<close>

definition failed_step_message :: "string \<Rightarrow> string \<Rightarrow> string \<Rightarrow> string option \<Rightarrow> string" where
  "failed_step_message step pname last_name trace =
     ''Failed to run step '' @ [CHR 0x27] @ step @ [CHR 0x27] @ '' of pipeline '' @ [CHR 0x27]
       @ pname @ [CHR 0x27] @ ''.''
       @ '' An error was encountered while running step '' @ [CHR 0x27] @ last_name
       @ [CHR 0x27] @ '': '' @ py_str trace"

definition failed_pipeline_message :: "string \<Rightarrow> string \<Rightarrow> string option \<Rightarrow> string" where
  "failed_pipeline_message pname last_name trace =
     ''Failed to run pipeline '' @ [CHR 0x27] @ pname @ [CHR 0x27] @ ''.''
       @ '' An error was encountered while running step '' @ [CHR 0x27] @ last_name
       @ [CHR 0x27] @ '': '' @ py_str trace"

text \<open>\<^verbatim>\<open>_BasePipeline.run\<close>\<close>

definition run :: "('w, 'c) externals \<Rightarrow> 'w \<Rightarrow> pipeline \<Rightarrow> string option
    \<Rightarrow> (exn + unit) \<times> 'w \<times> pipeline" where
  "run ext w self step =
     (case resolve_pipeline_steps ext w self of
        Inl e \<Rightarrow> (Inl e, w, self)
      | Inr ss \<Rightarrow>
          (let self1 = self\<lparr>steps := ss\<rparr> in
           case (if truthy step then get_step (repr ext) self1 (py_str step)
                 else get_default_step ext self1) of
             Inl e \<Rightarrow> (Inl e, w, self1)
           | Inr target_step \<Rightarrow>
               (case run_pipeline_step ext w (pipeline_root_path self1)
                       (get_subgraph_for_target_step self1 target_step) target_step
                       (template self1) of
                  (Inl e, w1) \<Rightarrow> (Inl e, w1, self1)
                | (Inr last_executed_step, w1) \<Rightarrow>
                    (case inspect ext w1 self1 (Some (name last_executed_step)) of
                       (Inl e, w2, self2) \<Rightarrow> (Inl e, w2, self2)
                     | (Inr u, w2, self2) \<Rightarrow>
                         (let last_executed_step_output_directory =
                                get_step_output_path ext (pipeline_root_path self2)
                                  (name last_executed_step) [];
                              last_executed_step_state =
                                get_execution_state ext w2 last_executed_step
                                  last_executed_step_output_directory
                          in
                          if status last_executed_step_state \<noteq> SUCCEEDED then
                            (if step \<noteq> None then
                               (Inl (MlflowException
                                       (failed_step_message (py_str step) (pipeline_name self2)
                                          (name last_executed_step)
                                          (stack_trace last_executed_step_state))
                                       (Some BAD_REQUEST)), w2, self2)
                             else
                               (Inl (MlflowException
                                       (failed_pipeline_message (pipeline_name self2)
                                          (name last_executed_step)
                                          (stack_trace last_executed_step_state))
                                       (Some BAD_REQUEST)), w2, self2))
                          else (Inr (), w2, self2))))))"

text \<open>\<^verbatim>\<open>_BasePipeline.clean\<close>\<close>

definition clean :: "('w, 'c) externals \<Rightarrow> 'w \<Rightarrow> pipeline \<Rightarrow> string option
    \<Rightarrow> (exn + unit) \<times> 'w \<times> pipeline" where
  "clean ext w self step =
     (case (if \<not> truthy step then Inr (steps self)
            else (case get_step (repr ext) self (py_str step) of
                    Inl e \<Rightarrow> Inl e
                  | Inr s \<Rightarrow> Inr [s])) of
        Inl e \<Rightarrow> (Inl e, w, self)
      | Inr to_clean \<Rightarrow>
          (case clean_execution_state ext w (pipeline_root_path self) to_clean of
             (r, w1) \<Rightarrow> (r, w1, self)))"

section \<open>The execution directory\<close>

text \<open>
  Modelled from the spec: \<^verbatim>\<open>_get_or_create_execution_directory\<close> of
  \<^verbatim>\<open>mlflow/pipelines/utils/execution.py\<close>, which is not among the sources; only its tests
  are. The definitions follow section 4.3 of the spec; the order of the stages and the names
  \<^verbatim>\<open>Makefile\<close> and \<^verbatim>\<open>steps/NAME/outputs\<close> are those of
  \<^verbatim>\<open>test_get_or_create_execution_directory_is_idempotent\<close>, and the stubs are created under
  the pipeline root as in \<^verbatim>\<open>test_create_required_step_files\<close>.

  A path is the list of its components. A file system is the set of its directories and
  the content of its files.
\<close>

type_synonym path = "string list"

record filesystem =
  dirs :: "path set"
  files :: "path \<rightharpoonup> string"

text \<open>Creating a directory with its parents; an existing directory is left as it is.\<close>

definition makedirs :: "path \<Rightarrow> filesystem \<Rightarrow> filesystem" where
  "makedirs p fs = fs\<lparr>dirs := dirs fs \<union> set (prefixes p)\<rparr>"

text \<open>Writing a file, and creating a file only where none exists.\<close>

definition write_file :: "path \<Rightarrow> string \<Rightarrow> filesystem \<Rightarrow> filesystem" where
  "write_file p content fs = fs\<lparr>files := (files fs)(p \<mapsto> content)\<rparr>"

definition create_if_missing :: "path \<Rightarrow> string \<Rightarrow> filesystem \<Rightarrow> filesystem" where
  "create_if_missing p content fs = (if p \<in> dom (files fs) then fs else write_file p content fs)"

text \<open>
  What the spec leaves to the template and the platform: the execution directory keyed by
  the pipeline root, the stubs of a template (path below the pipeline root, and initial
  content), and the text of the build description for a step list and a template.
\<close>

record layout =
  execution_directory :: "path \<Rightarrow> path"
  stub_files :: "string \<Rightarrow> (path \<times> string) list"
  build_description :: "path \<Rightarrow> string list \<Rightarrow> string \<Rightarrow> string"

text \<open>
  The stages of \<open>ensure\<close>, in the order they run: the execution directory itself, one stage
  per stub, the build description, one stage per step's output directory.
\<close>

datatype stage =
    BaseDirectory
  | StepStub path string
  | BuildDescription
  | StepOutputDirectory string

definition stages :: "layout \<Rightarrow> step list \<Rightarrow> string \<Rightarrow> stage list" where
  "stages L pipeline_steps tmpl =
     BaseDirectory # map (\<lambda>(rel, content). StepStub rel content) (stub_files L tmpl)
       @ [BuildDescription] @ map (\<lambda>s. StepOutputDirectory (name s)) pipeline_steps"

fun apply_stage :: "layout \<Rightarrow> path \<Rightarrow> step list \<Rightarrow> string \<Rightarrow> stage \<Rightarrow> filesystem \<Rightarrow> filesystem" where
  "apply_stage L pipeline_root pipeline_steps tmpl BaseDirectory fs =
     makedirs (execution_directory L pipeline_root) fs"
| "apply_stage L pipeline_root pipeline_steps tmpl (StepStub rel content) fs =
     create_if_missing (pipeline_root @ rel) content (makedirs (butlast (pipeline_root @ rel)) fs)"
| "apply_stage L pipeline_root pipeline_steps tmpl BuildDescription fs =
     write_file (execution_directory L pipeline_root @ [''Makefile''])
       (build_description L pipeline_root (map name pipeline_steps) tmpl) fs"
| "apply_stage L pipeline_root pipeline_steps tmpl (StepOutputDirectory n) fs =
     makedirs (execution_directory L pipeline_root @ [''steps'', n, ''outputs'']) fs"

text \<open>
  Running the stages in order. \<open>fault\<close> says which stages fail in this call and with which
  exception; the first stage that fails ends the call, and what the earlier stages made
  stays.
\<close>

fun run_stages :: "(stage \<Rightarrow> exn option) \<Rightarrow> (stage \<Rightarrow> filesystem \<Rightarrow> filesystem) \<Rightarrow> stage list
    \<Rightarrow> filesystem \<Rightarrow> exn option \<times> filesystem" where
  "run_stages fault ap [] fs = (None, fs)"
| "run_stages fault ap (s # ss) fs =
     (case fault s of
        Some e \<Rightarrow> (Some e, fs)
      | None \<Rightarrow> run_stages fault ap ss (ap s fs))"

definition ensure :: "layout \<Rightarrow> (stage \<Rightarrow> exn option) \<Rightarrow> path \<Rightarrow> step list \<Rightarrow> string \<Rightarrow> filesystem
    \<Rightarrow> (exn + path) \<times> filesystem" where
  "ensure L fault pipeline_root pipeline_steps tmpl fs =
     (case run_stages fault (apply_stage L pipeline_root pipeline_steps tmpl)
             (stages L pipeline_steps tmpl) fs of
        (Some e, fs') \<Rightarrow> (Inl e, fs')
      | (None, fs') \<Rightarrow> (Inr (execution_directory L pipeline_root), fs'))"

definition no_fault :: "stage \<Rightarrow> exn option" where
  "no_fault s = None"

text \<open>
  The setting of the test: one step \<^verbatim>\<open>test_step\<close>, the template \<^verbatim>\<open>regression/v1\<close>, an empty
  file system, and the two failures the test simulates.
\<close>

definition test_step :: step where
  "test_step = \<lparr> name = ''test_step'', step_class = TRAINING, get_artifacts = [] \<rparr>"

definition test_layout :: layout where
  "test_layout =
     \<lparr> execution_directory = (\<lambda>pipeline_root. [''home'', ''.mlflow'', ''pipelines'', concat pipeline_root]),
       stub_files = (\<lambda>tmpl. [([''steps'', ''ingest.py''], []), ([''steps'', ''split.py''], [])]),
       build_description = (\<lambda>pipeline_root names tmpl. ''# rules for '' @ concat names) \<rparr>"

definition empty_filesystem :: filesystem where
  "empty_filesystem = \<lparr> dirs = {}, files = Map.empty \<rparr>"

definition makefile_fault :: "stage \<Rightarrow> exn option" where
  "makefile_fault s =
     (case s of BuildDescription \<Rightarrow> Some (Exception ''Makefile creation failed'') | _ \<Rightarrow> None)"

definition step_directory_fault :: "stage \<Rightarrow> exn option" where
  "step_directory_fault s =
     (case s of
        StepOutputDirectory n \<Rightarrow> Some (Exception ''Step directory creation failed'')
      | _ \<Rightarrow> None)"

section \<open>The split of the dataset\<close>












section \<open>Examples\<close>

text \<open>A report step that keeps the classification UNKNOWN, and pipelines for the examples.\<close>

definition card_step :: step where
  "card_step = \<lparr> name = ''card'', step_class = UNKNOWN, get_artifacts = [] \<rparr>"

definition example_pipeline :: "step list \<Rightarrow> pipeline" where
  "example_pipeline ss =
     \<lparr> pipeline_root_path = ''/p'', profile = ''local'', pipeline_name = ''demo'',
       steps = ss, template = Some ''regression/v1'' \<rparr>"

definition failed_state :: execution_state where
  "failed_state = \<lparr> status = FAILED, last_updated_timestamp = 7, stack_trace = Some ''Traceback'' \<rparr>"

definition succeeded_state :: execution_state where
  "succeeded_state = \<lparr> status = SUCCEEDED, last_updated_timestamp = 7, stack_trace = None \<rparr>"

text \<open>
  Collaborators for the examples. The world is the list of the names of the steps whose
  state has been cleaned; the configuration declares the split step alone; every step's
  recorded state is \<open>st\<close>; the runner reports the target as the last executed step.
\<close>

definition example_externals :: "execution_state \<Rightarrow> (string list, unit) externals" where
  "example_externals st =
     \<lparr> get_pipeline_config = (\<lambda>w pipeline_root prof. Inr ()),
       set_profile = (\<lambda>c prof. c),
       get_step_classes = [\<lambda>c pipeline_root. Inr (SplitStep pipeline_root)],
       get_default_step = (\<lambda>self. Inr (SplitStep (pipeline_root_path self))),
       run_pipeline_step = (\<lambda>w pipeline_root subgraph target_step tmpl. (Inr target_step, w)),
       get_step_output_path = (\<lambda>pipeline_root n rel. pipeline_root @ ''/'' @ n),
       get_execution_state = (\<lambda>w s dir. st),
       step_inspect = (\<lambda>w s dir. (Inr (), w)),
       get_pipeline_dag_file = (\<lambda>w self. (Inr ''pipeline_dag.html'', w)),
       display_html = (\<lambda>w f. (Inr (), w)),
       clean_execution_state = (\<lambda>w pipeline_root ss. (Inr (), w @ map name ss)),
       repr = (\<lambda>s. [CHR 0x27] @ s @ [CHR 0x27]) \<rparr>"

text \<open>The same collaborators, with a step whose inspection raises.\<close>

definition raising_externals :: "execution_state \<Rightarrow> (string list, unit) externals" where
  "raising_externals st =
     (example_externals st)\<lparr>step_inspect := (\<lambda>w s dir. (Inl (Exception ''inspect failed''), w))\<rparr>"

section \<open>The subgraph of a target step\<close>

lemma subgraph_loop_filter:
  "subgraph_loop t ss acc = acc @ filter (\<lambda>s. step_class t = step_class s) ss"
  by (induction ss arbitrary: acc) simp_all

lemma get_subgraph_is_filter:
  "get_subgraph_for_target_step self t = filter (\<lambda>s. step_class t = step_class s) (steps self)"
  by (simp add: get_subgraph_for_target_step_def subgraph_loop_filter)

text \<open>
  C1. The resolver returns the steps of the pipeline whose classification is the target's,
  in pipeline order, for every target; the guard for the classification UNKNOWN never
  fires, since it compares a bound method with an enum member. For a target of
  classification UNKNOWN that is in the step list the result therefore holds the target
  itself and is not empty: here the pipeline holds the split step and a report step of
  classification UNKNOWN, and the report step is the target.
\<close>

theorem C1_unknown_target_subgraph_not_empty:
  "get_subgraph_for_target_step (example_pipeline [SplitStep ''/p'', card_step]) card_step
     = [card_step]"
  by (simp add: get_subgraph_for_target_step_def example_pipeline_def SplitStep_def
        card_step_def)

section \<open>Messages and what they contain\<close>

lemma sublist_in_append_right: "sublist x ys \<Longrightarrow> sublist x (zs @ ys)"
  unfolding sublist_def by (metis append.assoc)

lemma sublist_in_append_left: "sublist x ys \<Longrightarrow> sublist x (ys @ zs)"
  unfolding sublist_def by (metis append.assoc)

lemma sublist_join_comma: "x \<in> set xs \<Longrightarrow> sublist x (join_comma xs)"
proof (induction xs rule: join_comma.induct)
  case 1 then show ?case by simp
next
  case (2 y) then show ?case by simp
next
  case (3 y z zs)
  show ?case
  proof (cases "x = y")
    case True
    then show ?thesis by simp
  next
    case False
    with 3 have "sublist x (join_comma (z # zs))" by simp
    then have "sublist x (y @ ('', '' @ join_comma (z # zs)))"
      by (intro sublist_in_append_right)
    then show ?thesis by simp
  qed
qed

lemma sublist_py_list_repr:
  assumes "x \<in> set xs"
  shows "sublist (r x) (py_list_repr r xs)"
proof -
  from assms have "r x \<in> set (map r xs)" by simp
  then have "sublist (r x) (join_comma (map r xs))" by (rule sublist_join_comma)
  then have "sublist (r x) (''['' @ (join_comma (map r xs) @ '']''))"
    by (intro sublist_in_append_right sublist_in_append_left)
  then show ?thesis by (simp add: py_list_repr_def)
qed

lemma failed_step_message_names:
  "sublist pname (failed_step_message s pname last_name trace)"
  "sublist last_name (failed_step_message s pname last_name trace)"
  "sublist (py_str trace) (failed_step_message s pname last_name trace)"
  unfolding failed_step_message_def
  by (intro sublist_in_append_right sublist_append_rightI sublist_order.order_refl)+

lemma failed_pipeline_message_names:
  "sublist pname (failed_pipeline_message pname last_name trace)"
  "sublist last_name (failed_pipeline_message pname last_name trace)"
  "sublist (py_str trace) (failed_pipeline_message pname last_name trace)"
  unfolding failed_pipeline_message_def
  by (intro sublist_in_append_right sublist_append_rightI sublist_order.order_refl)+

lemma artifact_loop_None:
  "\<forall>a\<in>set as. artifact_name a \<noteq> n \<Longrightarrow> artifact_loop as n = None"
  by (induction as) simp_all

lemma step_loop_None:
  "\<forall>s\<in>set ss. \<forall>a\<in>set (get_artifacts s). artifact_name a \<noteq> n \<Longrightarrow> step_loop ss n = None"
  by (induction ss) (simp_all add: artifact_loop_None)

text \<open>
  C8 (as amended). Looking up a name that names no step of the pipeline fails at once with
  an MlflowException whose message ends with the list of the pipeline's step names, so the
  \<^verbatim>\<open>repr\<close> of every step's name stands in the message. Requesting an artifact name that no
  step offers fails at once with an MlflowException of code INVALID\_PARAMETER\_VALUE whose
  message names the requested artifact and nothing else: it lists no available options.
\<close>

theorem C8_lookup_errors:
  "(step_name \<notin> set (map name (steps self)) \<longrightarrow>
      get_step r self step_name =
        Inl (MlflowException
               (''Step '' @ step_name @ '' not found in pipeline. Available steps are ''
                  @ py_list_repr r (map name (steps self))) None)
      \<and> (\<forall>s\<in>set (steps self).
            sublist (r (name s))
              (''Step '' @ step_name @ '' not found in pipeline. Available steps are ''
                 @ py_list_repr r (map name (steps self)))))
   \<and> ((\<forall>s\<in>set (steps self). \<forall>a\<in>set (get_artifacts s). artifact_name a \<noteq> n) \<longrightarrow>
      get_artifact self n =
        Inl (MlflowException
               (''The artifact with name '' @ [CHR 0x27] @ n @ [CHR 0x27]
                  @ '' is not supported.'')
               (Some INVALID_PARAMETER_VALUE)))"
proof (intro conjI impI ballI)
  assume "step_name \<notin> set (map name (steps self))"
  then show "get_step r self step_name =
        Inl (MlflowException
               (''Step '' @ step_name @ '' not found in pipeline. Available steps are ''
                  @ py_list_repr r (map name (steps self))) None)"
    by (simp add: get_step_def)
next
  fix s assume "s \<in> set (steps self)"
  then have "name s \<in> set (map name (steps self))" by simp
  then have "sublist (r (name s)) (py_list_repr r (map name (steps self)))"
    by (rule sublist_py_list_repr)
  then show "sublist (r (name s))
              (''Step '' @ step_name @ '' not found in pipeline. Available steps are ''
                 @ py_list_repr r (map name (steps self)))"
    by (intro sublist_in_append_right)
next
  assume "\<forall>s\<in>set (steps self). \<forall>a\<in>set (get_artifacts s). artifact_name a \<noteq> n"
  then have "step_loop (steps self) n = None" by (rule step_loop_None)
  then show "get_artifact self n =
        Inl (MlflowException
               (''The artifact with name '' @ [CHR 0x27] @ n @ [CHR 0x27]
                  @ '' is not supported.'')
               (Some INVALID_PARAMETER_VALUE))"
    by (simp add: get_artifact_def)
qed

text \<open>
  The lemma at work: the name \<^verbatim>\<open>train\<close> in a pipeline of the steps \<^verbatim>\<open>split\<close> and \<^verbatim>\<open>card\<close>,
  and the artifact name \<^verbatim>\<open>model\<close>.
\<close>

theorem C8_lookup_errors_witness:
  "get_step (\<lambda>s. [CHR 0x27] @ s @ [CHR 0x27]) (example_pipeline [SplitStep ''/p'', card_step]) ''train''
     = Inl (MlflowException
              ''Step train not found in pipeline. Available steps are ['split', 'card']'' None)
   \<and> sublist ''split'' ''Step train not found in pipeline. Available steps are ['split', 'card']''
   \<and> get_artifact (example_pipeline [SplitStep ''/p'', card_step]) ''model''
     = Inl (MlflowException ''The artifact with name 'model' is not supported.''
              (Some INVALID_PARAMETER_VALUE))"
  using C8_lookup_errors [of "''train''" "example_pipeline [SplitStep ''/p'', card_step]"
      "\<lambda>s. [CHR 0x27] @ s @ [CHR 0x27]" "''model''"]
  apply (simp add: example_pipeline_def SplitStep_def card_step_def py_list_repr_def)
  apply code_simp
  done

text \<open>
  Against C8 as it was stated: the pipeline holds the split step, which offers the
  artifacts \<^verbatim>\<open>training_data\<close>, \<^verbatim>\<open>validation_data\<close> and \<^verbatim>\<open>test_data\<close>; the error for the
  unsupported name \<^verbatim>\<open>model\<close> names none of them.
\<close>

theorem C8_artifact_error_lists_no_options:
  "get_artifact (example_pipeline [SplitStep ''/p'']) ''model''
     = Inl (MlflowException ''The artifact with name 'model' is not supported.''
              (Some INVALID_PARAMETER_VALUE))
   \<and> \<not> sublist ''training_data'' ''The artifact with name 'model' is not supported.''
   \<and> \<not> sublist ''validation_data'' ''The artifact with name 'model' is not supported.''
   \<and> \<not> sublist ''test_data'' ''The artifact with name 'model' is not supported.''"
proof -
  have "get_artifact (example_pipeline [SplitStep ''/p'']) ''model''
     = Inl (MlflowException ''The artifact with name 'model' is not supported.''
              (Some INVALID_PARAMETER_VALUE))"
    by (simp add: get_artifact_def example_pipeline_def SplitStep_def)
  moreover have "\<not> sublist ''training_data'' ''The artifact with name 'model' is not supported.''"
    by code_simp
  moreover have "\<not> sublist ''validation_data'' ''The artifact with name 'model' is not supported.''"
    by code_simp
  moreover have "\<not> sublist ''test_data'' ''The artifact with name 'model' is not supported.''"
    by code_simp
  ultimately show ?thesis by blast
qed

section \<open>The entry points and the cached step list\<close>

lemma resolve_ignores_steps:
  "resolve_pipeline_steps ext w (self\<lparr>steps := xs\<rparr>) = resolve_pipeline_steps ext w self"
  by (simp add: resolve_pipeline_steps_def split: sum.splits)

lemma inspect_ignores_steps:
  "resolve_pipeline_steps ext w self = Inr ss \<Longrightarrow>
   inspect ext w (self\<lparr>steps := xs\<rparr>) step = inspect ext w self step"
  by (simp add: inspect_def resolve_ignores_steps)

lemma run_ignores_steps:
  "resolve_pipeline_steps ext w self = Inr ss \<Longrightarrow>
   run ext w (self\<lparr>steps := xs\<rparr>) step = run ext w self step"
  by (simp add: run_def resolve_ignores_steps)

lemma inspect_resolve_fails:
  "resolve_pipeline_steps ext w self = Inl e \<Longrightarrow> inspect ext w self step = (Inl e, w, self)"
  by (simp add: inspect_def)

lemma run_resolve_fails:
  "resolve_pipeline_steps ext w self = Inl e \<Longrightarrow> run ext w self step = (Inl e, w, self)"
  by (simp add: run_def)

lemma inspect_stores_fresh:
  assumes "resolve_pipeline_steps ext w self = Inr ss"
    and "inspect ext w self step = (r, w', self')"
  shows "self' = self\<lparr>steps := ss\<rparr>"
proof (cases "truthy step")
  case False
  with assms show ?thesis
    by (simp add: inspect_def Let_def split: sum.splits prod.splits)
next
  case True
  with assms show ?thesis
    by (simp add: inspect_def Let_def split: sum.splits prod.splits)
qed

text \<open>
  C7 (as amended). In a call of \<^verbatim>\<open>run\<close> to which the runner returns the last executed step
  (the steps were resolved and the target was found), that step is inspected before its
  status is checked. When the inspection raises, the call raises that exception, whatever
  the recorded status. When the inspection returns and the recorded status is not
  SUCCEEDED, the call raises one MlflowException of code BAD\_REQUEST whose message holds
  the name of the pipeline, the name of the last executed step and what the f-string
  prints for its stack trace; when the inspection returns and the status is SUCCEEDED, the
  call returns without raising.
\<close>

theorem C7_run_check_after_inspection:
  assumes resolved: "resolve_pipeline_steps ext w self = Inr ss"
    and target: "(if truthy step then get_step (repr ext) (self\<lparr>steps := ss\<rparr>) (py_str step)
                  else get_default_step ext (self\<lparr>steps := ss\<rparr>)) = Inr target_step"
    and ran: "run_pipeline_step ext w (pipeline_root_path self)
                (get_subgraph_for_target_step (self\<lparr>steps := ss\<rparr>) target_step) target_step
                (template self) = (Inr last_step, w1)"
  shows "(\<forall>e w2 self2.
            inspect ext w1 (self\<lparr>steps := ss\<rparr>) (Some (name last_step)) = (Inl e, w2, self2) \<longrightarrow>
            run ext w self step = (Inl e, w2, self2))
       \<and> (\<forall>w2 self2 st.
            inspect ext w1 (self\<lparr>steps := ss\<rparr>) (Some (name last_step)) = (Inr (), w2, self2)
            \<and> st = get_execution_state ext w2 last_step
                     (get_step_output_path ext (pipeline_root_path self) (name last_step) []) \<longrightarrow>
            (status st \<noteq> SUCCEEDED \<longrightarrow>
               run ext w self step =
                 (Inl (MlflowException
                         (case step of
                            Some s \<Rightarrow> failed_step_message s (pipeline_name self) (name last_step)
                                        (stack_trace st)
                          | None \<Rightarrow> failed_pipeline_message (pipeline_name self) (name last_step)
                                      (stack_trace st))
                         (Some BAD_REQUEST)), w2, self2)
               \<and> sublist (pipeline_name self)
                    (case step of
                       Some s \<Rightarrow> failed_step_message s (pipeline_name self) (name last_step)
                                   (stack_trace st)
                     | None \<Rightarrow> failed_pipeline_message (pipeline_name self) (name last_step)
                                 (stack_trace st))
               \<and> sublist (name last_step)
                    (case step of
                       Some s \<Rightarrow> failed_step_message s (pipeline_name self) (name last_step)
                                   (stack_trace st)
                     | None \<Rightarrow> failed_pipeline_message (pipeline_name self) (name last_step)
                                 (stack_trace st))
               \<and> sublist (py_str (stack_trace st))
                    (case step of
                       Some s \<Rightarrow> failed_step_message s (pipeline_name self) (name last_step)
                                   (stack_trace st)
                     | None \<Rightarrow> failed_pipeline_message (pipeline_name self) (name last_step)
                                 (stack_trace st)))
            \<and> (status st = SUCCEEDED \<longrightarrow> run ext w self step = (Inr (), w2, self2)))"
proof (rule conjI; intro allI; rule impI)
  fix e w2 self2
  assume "inspect ext w1 (self\<lparr>steps := ss\<rparr>) (Some (name last_step)) = (Inl e, w2, self2)"
  then show "run ext w self step = (Inl e, w2, self2)"
    using resolved target ran by (simp add: run_def Let_def)
next
  fix w2 self2 st
  assume a: "inspect ext w1 (self\<lparr>steps := ss\<rparr>) (Some (name last_step)) = (Inr (), w2, self2)
            \<and> st = get_execution_state ext w2 last_step
                     (get_step_output_path ext (pipeline_root_path self) (name last_step) [])"
  then have inspected: "inspect ext w1 (self\<lparr>steps := ss\<rparr>) (Some (name last_step)) = (Inr (), w2, self2)"
    and state: "st = get_execution_state ext w2 last_step
                     (get_step_output_path ext (pipeline_root_path self) (name last_step) [])"
    by simp_all
  have "resolve_pipeline_steps ext w1 (self\<lparr>steps := ss\<rparr>) = Inr ss' \<Longrightarrow>
        self2 = self\<lparr>steps := ss'\<rparr>" for ss'
    using inspect_stores_fresh [OF _ inspected] by simp
  moreover from inspected obtain ss' where "resolve_pipeline_steps ext w1 (self\<lparr>steps := ss\<rparr>) = Inr ss'"
    by (cases "resolve_pipeline_steps ext w1 (self\<lparr>steps := ss\<rparr>)") (simp_all add: inspect_def)
  ultimately obtain ss' where self2: "self2 = self\<lparr>steps := ss'\<rparr>" by blast
  have names: "pipeline_name self2 = pipeline_name self" "pipeline_root_path self2 = pipeline_root_path self"
    by (simp_all add: self2)
  have run_eq: "run ext w self step =
      (if status st \<noteq> SUCCEEDED then
         (if step \<noteq> None then
            (Inl (MlflowException
                    (failed_step_message (py_str step) (pipeline_name self) (name last_step)
                       (stack_trace st)) (Some BAD_REQUEST)), w2, self2)
          else
            (Inl (MlflowException
                    (failed_pipeline_message (pipeline_name self) (name last_step)
                       (stack_trace st)) (Some BAD_REQUEST)), w2, self2))
       else (Inr (), w2, self2))"
    using resolved target ran inspected state names
    by (simp add: run_def Let_def)
  show "(status st \<noteq> SUCCEEDED \<longrightarrow>
               run ext w self step =
                 (Inl (MlflowException
                         (case step of
                            Some s \<Rightarrow> failed_step_message s (pipeline_name self) (name last_step)
                                        (stack_trace st)
                          | None \<Rightarrow> failed_pipeline_message (pipeline_name self) (name last_step)
                                      (stack_trace st))
                         (Some BAD_REQUEST)), w2, self2)
               \<and> sublist (pipeline_name self)
                    (case step of
                       Some s \<Rightarrow> failed_step_message s (pipeline_name self) (name last_step)
                                   (stack_trace st)
                     | None \<Rightarrow> failed_pipeline_message (pipeline_name self) (name last_step)
                                 (stack_trace st))
               \<and> sublist (name last_step)
                    (case step of
                       Some s \<Rightarrow> failed_step_message s (pipeline_name self) (name last_step)
                                   (stack_trace st)
                     | None \<Rightarrow> failed_pipeline_message (pipeline_name self) (name last_step)
                                 (stack_trace st))
               \<and> sublist (py_str (stack_trace st))
                    (case step of
                       Some s \<Rightarrow> failed_step_message s (pipeline_name self) (name last_step)
                                   (stack_trace st)
                     | None \<Rightarrow> failed_pipeline_message (pipeline_name self) (name last_step)
                                 (stack_trace st)))
            \<and> (status st = SUCCEEDED \<longrightarrow> run ext w self step = (Inr (), w2, self2))"
  proof (cases step)
    case None
    then show ?thesis
      using run_eq by (simp add: failed_pipeline_message_names)
  next
    case (Some s)
    then show ?thesis
      using run_eq by (simp add: failed_step_message_names)
  qed
qed

text \<open>
  Four calls: a named step that failed, the default step that failed, the default step
  that succeeded, and the default step that succeeded with an inspection that raises.
\<close>

theorem C7_witness:
  "run (example_externals failed_state) [] (example_pipeline [card_step]) (Some ''split'')
     = (Inl (MlflowException
               ''Failed to run step 'split' of pipeline 'demo'. An error was encountered while running step 'split': Traceback''
               (Some BAD_REQUEST)), [], example_pipeline [SplitStep ''/p''])
   \<and> run (example_externals failed_state) [] (example_pipeline [card_step]) None
     = (Inl (MlflowException
               ''Failed to run pipeline 'demo'. An error was encountered while running step 'split': Traceback''
               (Some BAD_REQUEST)), [], example_pipeline [SplitStep ''/p''])
   \<and> run (example_externals succeeded_state) [] (example_pipeline [card_step]) None
     = (Inr (), [], example_pipeline [SplitStep ''/p''])
   \<and> run (raising_externals succeeded_state) [] (example_pipeline [card_step]) None
     = (Inl (Exception ''inspect failed''), [], example_pipeline [SplitStep ''/p''])"
proof -
  let ?P = "example_pipeline [card_step]"
  let ?Q = "example_pipeline [SplitStep ''/p'']"
  have Q: "?P\<lparr>steps := [SplitStep ''/p'']\<rparr> = ?Q"
    by (simp add: example_pipeline_def)
  have resolved: "resolve_pipeline_steps (example_externals st) [] ?P = Inr [SplitStep ''/p'']" for st
    by (simp add: resolve_pipeline_steps_def example_externals_def example_pipeline_def)
  have resolved': "resolve_pipeline_steps (example_externals st) [] ?Q = Inr [SplitStep ''/p'']" for st
    by (simp add: resolve_pipeline_steps_def example_externals_def example_pipeline_def)
  have rresolved: "resolve_pipeline_steps (raising_externals st) [] ?P = Inr [SplitStep ''/p'']" for st
    by (simp add: resolve_pipeline_steps_def raising_externals_def example_externals_def
          example_pipeline_def)
  have rresolved': "resolve_pipeline_steps (raising_externals st) [] ?Q = Inr [SplitStep ''/p'']" for st
    by (simp add: resolve_pipeline_steps_def raising_externals_def example_externals_def
          example_pipeline_def)
  have named: "(if truthy (Some ''split'')
                then get_step (repr (example_externals st)) (?P\<lparr>steps := [SplitStep ''/p'']\<rparr>)
                       (py_str (Some ''split''))
                else get_default_step (example_externals st) (?P\<lparr>steps := [SplitStep ''/p'']\<rparr>))
               = Inr (SplitStep ''/p'')" for st
    by (simp add: get_step_def example_pipeline_def SplitStep_def)
  have default: "(if truthy None
                then get_step (repr (example_externals st)) (?P\<lparr>steps := [SplitStep ''/p'']\<rparr>)
                       (py_str None)
                else get_default_step (example_externals st) (?P\<lparr>steps := [SplitStep ''/p'']\<rparr>))
               = Inr (SplitStep ''/p'')" for st
    by (simp add: example_externals_def example_pipeline_def)
  have rdefault: "(if truthy None
                then get_step (repr (raising_externals st)) (?P\<lparr>steps := [SplitStep ''/p'']\<rparr>)
                       (py_str None)
                else get_default_step (raising_externals st) (?P\<lparr>steps := [SplitStep ''/p'']\<rparr>))
               = Inr (SplitStep ''/p'')" for st
    by (simp add: raising_externals_def example_externals_def example_pipeline_def)
  have ran: "run_pipeline_step (example_externals st) [] (pipeline_root_path ?P)
               (get_subgraph_for_target_step (?P\<lparr>steps := [SplitStep ''/p'']\<rparr>) (SplitStep ''/p''))
               (SplitStep ''/p'') (template ?P) = (Inr (SplitStep ''/p''), [])" for st
    by (simp add: example_externals_def)
  have rran: "run_pipeline_step (raising_externals st) [] (pipeline_root_path ?P)
               (get_subgraph_for_target_step (?P\<lparr>steps := [SplitStep ''/p'']\<rparr>) (SplitStep ''/p''))
               (SplitStep ''/p'') (template ?P) = (Inr (SplitStep ''/p''), [])" for st
    by (simp add: raising_externals_def example_externals_def)
  have inspected: "inspect (example_externals st) [] (?P\<lparr>steps := [SplitStep ''/p'']\<rparr>)
                     (Some (name (SplitStep ''/p''))) = (Inr (), [], ?Q)" for st
    unfolding Q
    by (simp add: inspect_def resolved' Q)
       (simp add: example_externals_def example_pipeline_def get_step_def SplitStep_def)
  have rinspected: "inspect (raising_externals st) [] (?P\<lparr>steps := [SplitStep ''/p'']\<rparr>)
                     (Some (name (SplitStep ''/p''))) = (Inl (Exception ''inspect failed''), [], ?Q)"
    for st
    unfolding Q
    by (simp add: inspect_def rresolved' Q)
       (simp add: raising_externals_def example_externals_def example_pipeline_def get_step_def
          SplitStep_def)
  have state: "st = get_execution_state (example_externals st) [] (SplitStep ''/p'')
                 (get_step_output_path (example_externals st) (pipeline_root_path ?P)
                    (name (SplitStep ''/p'')) [])" for st
    by (simp add: example_externals_def)
  note a = C7_run_check_after_inspection [OF resolved named ran, of failed_state]
  note b = C7_run_check_after_inspection [OF resolved default ran, of failed_state]
  note c = C7_run_check_after_inspection [OF resolved default ran, of succeeded_state]
  note d = C7_run_check_after_inspection [OF rresolved rdefault rran, of succeeded_state]
  have "run (example_externals failed_state) [] ?P (Some ''split'')
     = (Inl (MlflowException
               ''Failed to run step 'split' of pipeline 'demo'. An error was encountered while running step 'split': Traceback''
               (Some BAD_REQUEST)), [], ?Q)"
    using a inspected [of failed_state] state [of failed_state]
    by (simp add: failed_state_def failed_step_message_def example_pipeline_def SplitStep_def)
  moreover have "run (example_externals failed_state) [] ?P None
     = (Inl (MlflowException
               ''Failed to run pipeline 'demo'. An error was encountered while running step 'split': Traceback''
               (Some BAD_REQUEST)), [], ?Q)"
    using b inspected [of failed_state] state [of failed_state]
    by (simp add: failed_state_def failed_pipeline_message_def example_pipeline_def SplitStep_def)
  moreover have "run (example_externals succeeded_state) [] ?P None = (Inr (), [], ?Q)"
    using c inspected [of succeeded_state] state [of succeeded_state]
    by (simp add: succeeded_state_def)
  moreover have "run (raising_externals succeeded_state) [] ?P None
      = (Inl (Exception ''inspect failed''), [], ?Q)"
    using d rinspected [of succeeded_state] by blast
  ultimately show ?thesis by blast
qed

text \<open>
  Against C7 as it was stated: the inspection of the last executed step raises. With the
  recorded status SUCCEEDED the call raises all the same, and with the status FAILED it
  raises the exception of the inspection and not the consolidated error.
\<close>

theorem C7_inspection_raises_first:
  "status (get_execution_state (raising_externals succeeded_state) [] (SplitStep ''/p'') ''/p/split'')
     = SUCCEEDED
   \<and> run (raising_externals succeeded_state) [] (example_pipeline [card_step]) None
     = (Inl (Exception ''inspect failed''), [], example_pipeline [SplitStep ''/p''])
   \<and> status (get_execution_state (raising_externals failed_state) [] (SplitStep ''/p'') ''/p/split'')
     = FAILED
   \<and> run (raising_externals failed_state) [] (example_pipeline [card_step]) (Some ''split'')
     = (Inl (Exception ''inspect failed''), [], example_pipeline [SplitStep ''/p''])"
  by (simp add: run_def inspect_def resolve_pipeline_steps_def raising_externals_def
        example_externals_def example_pipeline_def get_step_def SplitStep_def
        get_subgraph_for_target_step_def succeeded_state_def failed_state_def)

lemma inspect_object:
  "\<exists>ss'. snd (snd (inspect ext w self step)) = self\<lparr>steps := ss'\<rparr>
      \<and> (resolve_pipeline_steps ext w self = Inr ss' \<or>
          (ss' = steps self \<and> (\<exists>e. resolve_pipeline_steps ext w self = Inl e)))"
proof (cases "resolve_pipeline_steps ext w self")
  case (Inl e)
  then have "inspect ext w self step = (Inl e, w, self)" by (rule inspect_resolve_fails)
  with Inl show ?thesis by (intro exI [of _ "steps self"]) simp
next
  case (Inr ss)
  obtain r w' self' where i: "inspect ext w self step = (r, w', self')"
    by (cases "inspect ext w self step") auto
  from inspect_stores_fresh [OF Inr i] i Inr show ?thesis by auto
qed

text \<open>
  C9 (as amended). \<^verbatim>\<open>run\<close> and \<^verbatim>\<open>inspect\<close> rebuild the step list from the current
  configuration before anything else, store it in the object and work on it: the step
  named is looked up in the fresh list, the subgraph handed to the runner is taken from
  it, and the object the call leaves behind holds a list resolved during the call. The
  list the object had cached plays no part, and when resolving raises, the call raises
  that exception and nothing else has happened. \<^verbatim>\<open>clean\<close> does not reload: it reads no
  configuration and constructs no step, and works on the step list the object holds from
  the last \<^verbatim>\<open>__init__\<close>, \<^verbatim>\<open>run\<close> or \<^verbatim>\<open>inspect\<close>.
\<close>

theorem C9_run_and_inspect_reload_clean_does_not:
  "(resolve_pipeline_steps ext w self = Inr ss \<longrightarrow>
      inspect ext w self step =
        (if \<not> truthy step then
           (case get_pipeline_dag_file ext w (self\<lparr>steps := ss\<rparr>) of
              (Inl e, w1) \<Rightarrow> (Inl e, w1, self\<lparr>steps := ss\<rparr>)
            | (Inr html_file_path, w1) \<Rightarrow>
                (case display_html ext w1 html_file_path of
                   (r, w2) \<Rightarrow> (r, w2, self\<lparr>steps := ss\<rparr>)))
         else
           (case get_step (repr ext) (self\<lparr>steps := ss\<rparr>) (py_str step) of
              Inl e \<Rightarrow> (Inl e, w, self\<lparr>steps := ss\<rparr>)
            | Inr s \<Rightarrow>
                (case step_inspect ext w s
                        (get_step_output_path ext (pipeline_root_path self) (py_str step) []) of
                   (r, w1) \<Rightarrow> (r, w1, self\<lparr>steps := ss\<rparr>))))
      \<and> run ext w self step =
        (case (if truthy step then get_step (repr ext) (self\<lparr>steps := ss\<rparr>) (py_str step)
               else get_default_step ext (self\<lparr>steps := ss\<rparr>)) of
           Inl e \<Rightarrow> (Inl e, w, self\<lparr>steps := ss\<rparr>)
         | Inr target_step \<Rightarrow>
             (case run_pipeline_step ext w (pipeline_root_path self)
                     (get_subgraph_for_target_step (self\<lparr>steps := ss\<rparr>) target_step)
                     target_step (template self) of
                (Inl e, w1) \<Rightarrow> (Inl e, w1, self\<lparr>steps := ss\<rparr>)
              | (Inr last_executed_step, w1) \<Rightarrow>
                  (case inspect ext w1 (self\<lparr>steps := ss\<rparr>) (Some (name last_executed_step)) of
                     (Inl e, w2, self2) \<Rightarrow> (Inl e, w2, self2)
                   | (Inr u, w2, self2) \<Rightarrow>
                       (if status (get_execution_state ext w2 last_executed_step
                                     (get_step_output_path ext (pipeline_root_path self2)
                                        (name last_executed_step) [])) \<noteq> SUCCEEDED
                        then
                          (Inl (MlflowException
                                  (if step \<noteq> None
                                   then failed_step_message (py_str step) (pipeline_name self2)
                                          (name last_executed_step)
                                          (stack_trace (get_execution_state ext w2
                                             last_executed_step
                                             (get_step_output_path ext (pipeline_root_path self2)
                                                (name last_executed_step) [])))
                                   else failed_pipeline_message (pipeline_name self2)
                                          (name last_executed_step)
                                          (stack_trace (get_execution_state ext w2
                                             last_executed_step
                                             (get_step_output_path ext (pipeline_root_path self2)
                                                (name last_executed_step) []))))
                                  (Some BAD_REQUEST)), w2, self2)
                        else (Inr (), w2, self2)))))
      \<and> run ext w (self\<lparr>steps := cached\<rparr>) step = run ext w self step
      \<and> inspect ext w (self\<lparr>steps := cached\<rparr>) step = inspect ext w self step
      \<and> snd (snd (inspect ext w self step)) = self\<lparr>steps := ss\<rparr>
      \<and> (\<exists>ss'. snd (snd (run ext w self step)) = self\<lparr>steps := ss'\<rparr>
             \<and> (ss' = ss \<or> (\<exists>w1. resolve_pipeline_steps ext w1 self = Inr ss'))))
   \<and> (resolve_pipeline_steps ext w self = Inl e \<longrightarrow>
        run ext w self step = (Inl e, w, self) \<and> inspect ext w self step = (Inl e, w, self))
   \<and> clean (ext\<lparr>get_pipeline_config := g, get_step_classes := cs\<rparr>) w self step
       = clean ext w self step
   \<and> (\<not> truthy step \<longrightarrow>
        clean ext w self step
          = (case clean_execution_state ext w (pipeline_root_path self) (steps self) of
               (r, w1) \<Rightarrow> (r, w1, self)))
   \<and> (truthy step \<longrightarrow>
        clean ext w self step
          = (case get_step (repr ext) self (py_str step) of
               Inl e \<Rightarrow> (Inl e, w, self)
             | Inr s \<Rightarrow>
                 (case clean_execution_state ext w (pipeline_root_path self) [s] of
                    (r, w1) \<Rightarrow> (r, w1, self))))"
proof -
  have A: "inspect ext w self step =
        (if \<not> truthy step then
           (case get_pipeline_dag_file ext w (self\<lparr>steps := ss\<rparr>) of
              (Inl e, w1) \<Rightarrow> (Inl e, w1, self\<lparr>steps := ss\<rparr>)
            | (Inr html_file_path, w1) \<Rightarrow>
                (case display_html ext w1 html_file_path of
                   (r, w2) \<Rightarrow> (r, w2, self\<lparr>steps := ss\<rparr>)))
         else
           (case get_step (repr ext) (self\<lparr>steps := ss\<rparr>) (py_str step) of
              Inl e \<Rightarrow> (Inl e, w, self\<lparr>steps := ss\<rparr>)
            | Inr s \<Rightarrow>
                (case step_inspect ext w s
                        (get_step_output_path ext (pipeline_root_path self) (py_str step) []) of
                   (r, w1) \<Rightarrow> (r, w1, self\<lparr>steps := ss\<rparr>))))"
    if "resolve_pipeline_steps ext w self = Inr ss"
    using that by (simp add: inspect_def Let_def)
  have B: "run ext w self step =
        (case (if truthy step then get_step (repr ext) (self\<lparr>steps := ss\<rparr>) (py_str step)
               else get_default_step ext (self\<lparr>steps := ss\<rparr>)) of
           Inl e \<Rightarrow> (Inl e, w, self\<lparr>steps := ss\<rparr>)
         | Inr target_step \<Rightarrow>
             (case run_pipeline_step ext w (pipeline_root_path self)
                     (get_subgraph_for_target_step (self\<lparr>steps := ss\<rparr>) target_step)
                     target_step (template self) of
                (Inl e, w1) \<Rightarrow> (Inl e, w1, self\<lparr>steps := ss\<rparr>)
              | (Inr last_executed_step, w1) \<Rightarrow>
                  (case inspect ext w1 (self\<lparr>steps := ss\<rparr>) (Some (name last_executed_step)) of
                     (Inl e, w2, self2) \<Rightarrow> (Inl e, w2, self2)
                   | (Inr u, w2, self2) \<Rightarrow>
                       (if status (get_execution_state ext w2 last_executed_step
                                     (get_step_output_path ext (pipeline_root_path self2)
                                        (name last_executed_step) [])) \<noteq> SUCCEEDED
                        then
                          (Inl (MlflowException
                                  (if step \<noteq> None
                                   then failed_step_message (py_str step) (pipeline_name self2)
                                          (name last_executed_step)
                                          (stack_trace (get_execution_state ext w2
                                             last_executed_step
                                             (get_step_output_path ext (pipeline_root_path self2)
                                                (name last_executed_step) [])))
                                   else failed_pipeline_message (pipeline_name self2)
                                          (name last_executed_step)
                                          (stack_trace (get_execution_state ext w2
                                             last_executed_step
                                             (get_step_output_path ext (pipeline_root_path self2)
                                                (name last_executed_step) []))))
                                  (Some BAD_REQUEST)), w2, self2)
                        else (Inr (), w2, self2)))))"
    if "resolve_pipeline_steps ext w self = Inr ss"
    using that by (simp add: run_def Let_def split: sum.splits prod.splits)
  have F: "\<exists>ss'. snd (snd (run ext w self step)) = self\<lparr>steps := ss'\<rparr>
             \<and> (ss' = ss \<or> (\<exists>w1. resolve_pipeline_steps ext w1 self = Inr ss'))"
    if r: "resolve_pipeline_steps ext w self = Inr ss"
  proof -
    let ?self1 = "self\<lparr>steps := ss\<rparr>"
    have early: "snd (snd (run ext w self step)) = ?self1
        \<or> (\<exists>w1 n. snd (snd (run ext w self step)) = snd (snd (inspect ext w1 ?self1 n)))"
    proof (cases "if truthy step then get_step (repr ext) ?self1 (py_str step)
                  else get_default_step ext ?self1")
      case (Inl e)
      then show ?thesis unfolding B [OF r] by simp
    next
      case (Inr target_step)
      obtain a w1 where ran: "run_pipeline_step ext w (pipeline_root_path self)
                     (get_subgraph_for_target_step ?self1 target_step)
                     target_step (template self) = (a, w1)"
        by (cases "run_pipeline_step ext w (pipeline_root_path self)
                     (get_subgraph_for_target_step ?self1 target_step)
                     target_step (template self)") auto
      show ?thesis
      proof (cases a)
        case (Inl e)
        with Inr ran show ?thesis unfolding B [OF r] by simp
      next
        case (Inr last_step)
        obtain x w2 self2 where i: "inspect ext w1 ?self1 (Some (name last_step)) = (x, w2, self2)"
          by (cases "inspect ext w1 ?self1 (Some (name last_step))") auto
        have "snd (snd (run ext w self step)) = self2"
          unfolding B [OF r] using \<open>(if truthy step then get_step (repr ext) ?self1 (py_str step)
                  else get_default_step ext ?self1) = Inr target_step\<close> ran Inr i
          by (cases x) simp_all
        with i have "snd (snd (run ext w self step))
            = snd (snd (inspect ext w1 ?self1 (Some (name last_step))))" by simp
        then show ?thesis by blast
      qed
    qed
    show ?thesis
    proof (rule disjE [OF early])
      assume "snd (snd (run ext w self step)) = ?self1"
      then show ?thesis by blast
    next
      assume "\<exists>w1 n. snd (snd (run ext w self step)) = snd (snd (inspect ext w1 ?self1 n))"
      then obtain w1 n where eq: "snd (snd (run ext w self step)) = snd (snd (inspect ext w1 ?self1 n))"
        by blast
      from inspect_object [of ext w1 ?self1 n] obtain ss' where
        o: "snd (snd (inspect ext w1 ?self1 n)) = ?self1\<lparr>steps := ss'\<rparr>"
        and c: "resolve_pipeline_steps ext w1 ?self1 = Inr ss' \<or>
          (ss' = steps ?self1 \<and> (\<exists>e. resolve_pipeline_steps ext w1 ?self1 = Inl e))"
        by blast
      from o eq have "snd (snd (run ext w self step)) = self\<lparr>steps := ss'\<rparr>" by simp
      moreover from c have "ss' = ss \<or> (\<exists>w1. resolve_pipeline_steps ext w1 self = Inr ss')"
        by (auto simp: resolve_ignores_steps)
      ultimately show ?thesis by blast
    qed
  qed
  have stored: "snd (snd (inspect ext w self step)) = self\<lparr>steps := ss\<rparr>"
    if r: "resolve_pipeline_steps ext w self = Inr ss"
    using inspect_stores_fresh [OF r, of step] by (cases "inspect ext w self step") auto
  have C: "clean (ext\<lparr>get_pipeline_config := g, get_step_classes := cs\<rparr>) w self step
       = clean ext w self step"
    by (simp add: clean_def split: sum.splits)
  have D: "\<not> truthy step \<longrightarrow>
        clean ext w self step
          = (case clean_execution_state ext w (pipeline_root_path self) (steps self) of
               (r, w1) \<Rightarrow> (r, w1, self))"
    by (simp add: clean_def)
  have E: "truthy step \<longrightarrow>
        clean ext w self step
          = (case get_step (repr ext) self (py_str step) of
               Inl e \<Rightarrow> (Inl e, w, self)
             | Inr s \<Rightarrow>
                 (case clean_execution_state ext w (pipeline_root_path self) [s] of
                    (r, w1) \<Rightarrow> (r, w1, self)))"
    by (simp add: clean_def split: sum.splits)
  show ?thesis
    using A B F stored C D E run_ignores_steps [of ext w self ss cached step]
      inspect_ignores_steps [of ext w self ss cached step]
      run_resolve_fails [of ext w self e step] inspect_resolve_fails [of ext w self e step]
    by presburger
qed

text \<open>
  Against C9 as it was stated: the object holds the step \<^verbatim>\<open>card\<close> from an earlier call and
  the configuration now declares the step \<^verbatim>\<open>split\<close> alone; \<^verbatim>\<open>clean()\<close> cleans the state of
  \<^verbatim>\<open>card\<close> and leaves the old list in the object.
\<close>

theorem C9_clean_uses_cached_steps:
  "resolve_pipeline_steps (example_externals succeeded_state) [] (example_pipeline [card_step])
     = Inr [SplitStep ''/p'']
   \<and> clean (example_externals succeeded_state) [] (example_pipeline [card_step]) None
     = (Inr (), [''card''], example_pipeline [card_step])"
  by (simp add: resolve_pipeline_steps_def clean_def example_externals_def example_pipeline_def
        card_step_def)

text \<open>
  The same object and configuration: \<^verbatim>\<open>run\<close> and \<^verbatim>\<open>inspect\<close> find the step \<^verbatim>\<open>split\<close> of the
  configuration and not the cached step \<^verbatim>\<open>card\<close>, and leave the fresh list in the object;
  \<^verbatim>\<open>clean\<close> looks the name up among the cached steps.
\<close>

theorem C9_witness:
  "run (example_externals succeeded_state) [] (example_pipeline [card_step]) (Some ''split'')
     = run (example_externals succeeded_state) [] (example_pipeline [SplitStep ''/p''])
         (Some ''split'')
   \<and> inspect (example_externals succeeded_state) [] (example_pipeline [card_step]) (Some ''split'')
     = (Inr (), [], example_pipeline [SplitStep ''/p''])
   \<and> inspect (example_externals succeeded_state) [] (example_pipeline [card_step]) (Some ''card'')
     = (Inl (MlflowException
               ''Step card not found in pipeline. Available steps are ['split']'' None),
        [], example_pipeline [SplitStep ''/p''])
   \<and> clean (example_externals succeeded_state) [] (example_pipeline [card_step]) (Some ''split'')
     = (Inl (MlflowException
               ''Step split not found in pipeline. Available steps are ['card']'' None),
        [], example_pipeline [card_step])"
proof -
  let ?E = "example_externals succeeded_state"
  let ?P = "example_pipeline [card_step]"
  let ?Q = "example_pipeline [SplitStep ''/p'']"
  have P: "?P\<lparr>steps := [SplitStep ''/p'']\<rparr> = ?Q"
    by (simp add: example_pipeline_def)
  have resolved: "resolve_pipeline_steps ?E [] ?P = Inr [SplitStep ''/p'']"
    by (simp add: resolve_pipeline_steps_def example_externals_def example_pipeline_def)
  have t: "truthy (Some ''split'')" "truthy (Some ''card'')" by simp_all
  note inst = C9_run_and_inspect_reload_clean_does_not
      [where ext = ?E and w = "[]" and self = ?P and ss = "[SplitStep ''/p'']"
         and cached = "[SplitStep ''/p'']"]
  have "run ?E [] ?P (Some ''split'') = run ?E [] ?Q (Some ''split'')"
    using inst [where step = "Some ''split''"] resolved by (simp add: P)
  moreover have "inspect ?E [] ?P (Some ''split'') = (Inr (), [], ?Q)"
    using inst [where step = "Some ''split''"] resolved
    by (simp add: P get_step_def example_pipeline_def SplitStep_def example_externals_def)
  moreover have "inspect ?E [] ?P (Some ''card'')
     = (Inl (MlflowException
               ''Step card not found in pipeline. Available steps are ['split']'' None),
        [], ?Q)"
    using inst [where step = "Some ''card''"] resolved
    by (simp add: P get_step_def example_pipeline_def SplitStep_def example_externals_def
          py_list_repr_def)
  moreover have "clean ?E [] ?P (Some ''split'')
     = (Inl (MlflowException
               ''Step split not found in pipeline. Available steps are ['card']'' None),
        [], ?P)"
    using inst [where step = "Some ''split''"] t
    by (simp add: get_step_def example_pipeline_def card_step_def example_externals_def
          py_list_repr_def)
  ultimately show ?thesis by blast
qed

section \<open>The execution directory: idempotence and resumption\<close>

text \<open>
  A stage is complete in a file system when running it changes nothing. A stage stays
  complete whatever other stage runs after it, and is complete once it has run.
\<close>

lemma apply_stage_idem:
  "apply_stage L pipeline_root ps t s (apply_stage L pipeline_root ps t s fs) = apply_stage L pipeline_root ps t s fs"
  by (cases s) (auto simp: makedirs_def write_file_def create_if_missing_def)

lemma makedirs_done: "makedirs p fs = fs \<longleftrightarrow> set (prefixes p) \<subseteq> dirs fs"
  by (cases fs) (auto simp: makedirs_def)

lemma write_file_done: "write_file p c fs = fs \<longleftrightarrow> files fs p = Some c"
  by (cases fs) (auto simp: write_file_def fun_upd_idem_iff)

lemma stub_done:
  "create_if_missing p c (makedirs q fs) = fs \<longleftrightarrow> set (prefixes q) \<subseteq> dirs fs \<and> p \<in> dom (files fs)"
  by (cases fs) (auto simp: create_if_missing_def makedirs_def write_file_def fun_upd_idem_iff)

lemma dirs_apply_stage: "dirs fs \<subseteq> dirs (apply_stage L pipeline_root ps t s fs)"
  by (cases s) (auto simp: makedirs_def write_file_def create_if_missing_def)

lemma dom_files_apply_stage: "dom (files fs) \<subseteq> dom (files (apply_stage L pipeline_root ps t s fs))"
  by (cases s) (auto simp: makedirs_def write_file_def create_if_missing_def)

lemma makefile_apply_stage:
  assumes "files fs (execution_directory L pipeline_root @ [''Makefile''])
             = Some (build_description L pipeline_root (map name ps) t)"
  shows "files (apply_stage L pipeline_root ps t s fs) (execution_directory L pipeline_root @ [''Makefile''])
             = Some (build_description L pipeline_root (map name ps) t)"
  using assms by (cases s) (auto simp: makedirs_def write_file_def create_if_missing_def)

lemma apply_stage_stays_done:
  assumes "apply_stage L pipeline_root ps t s fs = fs"
  shows "apply_stage L pipeline_root ps t s (apply_stage L pipeline_root ps t s' fs) = apply_stage L pipeline_root ps t s' fs"
proof (cases s)
  case BaseDirectory
  with assms have "set (prefixes (execution_directory L pipeline_root)) \<subseteq> dirs fs"
    by (simp add: makedirs_done)
  with dirs_apply_stage [of fs L pipeline_root ps t s']
  have "set (prefixes (execution_directory L pipeline_root)) \<subseteq> dirs (apply_stage L pipeline_root ps t s' fs)"
    by blast
  with BaseDirectory show ?thesis by (simp add: makedirs_done)
next
  case (StepStub rel content)
  with assms have "set (prefixes (butlast (pipeline_root @ rel))) \<subseteq> dirs fs" "pipeline_root @ rel \<in> dom (files fs)"
    by (simp_all add: stub_done)
  with dirs_apply_stage [of fs L pipeline_root ps t s'] dom_files_apply_stage [of fs L pipeline_root ps t s']
  have "set (prefixes (butlast (pipeline_root @ rel))) \<subseteq> dirs (apply_stage L pipeline_root ps t s' fs)"
    "pipeline_root @ rel \<in> dom (files (apply_stage L pipeline_root ps t s' fs))"
    by blast+
  with StepStub show ?thesis by (simp add: stub_done)
next
  case BuildDescription
  with assms have "files fs (execution_directory L pipeline_root @ [''Makefile''])
             = Some (build_description L pipeline_root (map name ps) t)"
    by (simp add: write_file_done)
  then have "files (apply_stage L pipeline_root ps t s' fs) (execution_directory L pipeline_root @ [''Makefile''])
             = Some (build_description L pipeline_root (map name ps) t)"
    by (rule makefile_apply_stage)
  with BuildDescription show ?thesis by (simp add: write_file_done)
next
  case (StepOutputDirectory n)
  with assms have "set (prefixes (execution_directory L pipeline_root @ [''steps'', n, ''outputs''])) \<subseteq> dirs fs"
    by (simp add: makedirs_done)
  with dirs_apply_stage [of fs L pipeline_root ps t s']
  have "set (prefixes (execution_directory L pipeline_root @ [''steps'', n, ''outputs'']))
          \<subseteq> dirs (apply_stage L pipeline_root ps t s' fs)"
    by blast
  with StepOutputDirectory show ?thesis by (simp add: makedirs_done)
qed

text \<open>Without a failure the stages are a fold; with one, the fold of the stages before it.\<close>

lemma run_stages_no_fault:
  "run_stages no_fault ap ss fs = (None, fold ap ss fs)"
  by (induction ss arbitrary: fs) (simp_all add: no_fault_def)

lemma fold_stays_done:
  assumes "apply_stage L pipeline_root ps t s fs = fs"
  shows "apply_stage L pipeline_root ps t s (fold (apply_stage L pipeline_root ps t) ss fs)
           = fold (apply_stage L pipeline_root ps t) ss fs"
  using assms
proof (induction ss arbitrary: fs)
  case Nil then show ?case by simp
next
  case (Cons a ss)
  from Cons.prems have "apply_stage L pipeline_root ps t s (apply_stage L pipeline_root ps t a fs) = apply_stage L pipeline_root ps t a fs"
    by (rule apply_stage_stays_done)
  then show ?case using Cons.IH by simp
qed

lemma fold_all_done:
  "s \<in> set ss \<Longrightarrow>
   apply_stage L pipeline_root ps t s (fold (apply_stage L pipeline_root ps t) ss fs)
     = fold (apply_stage L pipeline_root ps t) ss fs"
proof (induction ss arbitrary: fs)
  case Nil then show ?case by simp
next
  case (Cons a ss)
  show ?case
  proof (cases "s = a")
    case True
    have "apply_stage L pipeline_root ps t a (apply_stage L pipeline_root ps t a fs) = apply_stage L pipeline_root ps t a fs"
      by (rule apply_stage_idem)
    then show ?thesis using True fold_stays_done [of L pipeline_root ps t a "apply_stage L pipeline_root ps t a fs" ss]
      by simp
  next
    case False
    with Cons.prems have "s \<in> set ss" by simp
    then show ?thesis using Cons.IH by simp
  qed
qed

lemma fold_done_id:
  "(\<forall>s\<in>set ss. apply_stage L pipeline_root ps t s fs = fs) \<Longrightarrow> fold (apply_stage L pipeline_root ps t) ss fs = fs"
  by (induction ss) simp_all

lemma fold_prefix_absorbed:
  "fold (apply_stage L pipeline_root ps t) ss (fold (apply_stage L pipeline_root ps t) ss fs)
     = fold (apply_stage L pipeline_root ps t) ss fs"
  by (rule fold_done_id) (simp add: fold_all_done)

lemma run_stages_first_fault:
  "(\<forall>x\<in>set pre. fault x = None) \<Longrightarrow> fault s = Some e \<Longrightarrow>
   run_stages fault ap (pre @ s # post) fs = (Some e, fold ap pre fs)"
  by (induction pre arbitrary: fs) simp_all

lemma first_fault_exists:
  "\<exists>s\<in>set ss. fault s \<noteq> None \<Longrightarrow>
   \<exists>pre s post e. ss = pre @ s # post \<and> (\<forall>x\<in>set pre. fault x = None) \<and> fault s = Some e"
proof (induction ss)
  case Nil then show ?case by simp
next
  case (Cons a ss)
  show ?case
  proof (cases "fault a")
    case (Some e)
    then have "a # ss = [] @ a # ss \<and> (\<forall>x\<in>set []. fault x = None) \<and> fault a = Some e" by simp
    then show ?thesis by blast
  next
    case None
    with Cons.prems have "\<exists>s\<in>set ss. fault s \<noteq> None" by auto
    from Cons.IH [OF this] obtain pre s post e where
      "ss = pre @ s # post" "\<forall>x\<in>set pre. fault x = None" "fault s = Some e" by blast
    with None have "a # ss = (a # pre) @ s # post \<and> (\<forall>x\<in>set (a # pre). fault x = None)
        \<and> fault s = Some e" by simp
    then show ?thesis by blast
  qed
qed

lemma ensure_no_fault:
  "ensure L no_fault pipeline_root ps t fs
     = (Inr (execution_directory L pipeline_root), fold (apply_stage L pipeline_root ps t) (stages L ps t) fs)"
  by (simp add: ensure_def run_stages_no_fault)

lemma dirs_fold: "dirs fs \<subseteq> dirs (fold (apply_stage L pipeline_root ps t) ss fs)"
proof (induction ss arbitrary: fs)
  case Nil then show ?case by simp
next
  case (Cons a ss)
  from dirs_apply_stage [of fs L pipeline_root ps t a] Cons.IH [of "apply_stage L pipeline_root ps t a fs"]
  show ?case by simp
qed

lemma files_apply_stage_other:
  assumes "p \<in> dom (files fs)" and "p \<noteq> execution_directory L pipeline_root @ [''Makefile'']"
  shows "files (apply_stage L pipeline_root ps t s fs) p = files fs p"
  using assms by (cases s) (auto simp: makedirs_def write_file_def create_if_missing_def)

lemma files_fold_other:
  assumes "p \<in> dom (files fs)" and "p \<noteq> execution_directory L pipeline_root @ [''Makefile'']"
  shows "files (fold (apply_stage L pipeline_root ps t) ss fs) p = files fs p"
  using assms
proof (induction ss arbitrary: fs)
  case Nil then show ?case by simp
next
  case (Cons a ss)
  have same: "files (apply_stage L pipeline_root ps t a fs) p = files fs p"
    using Cons.prems by (rule files_apply_stage_other)
  with Cons.prems have "p \<in> dom (files (apply_stage L pipeline_root ps t a fs))" by (simp add: dom_def)
  from Cons.IH [OF this Cons.prems(2)] same show ?case by simp
qed

text \<open>
  C5. A call of \<open>ensure\<close> in which nothing fails returns the execution directory of the
  pipeline root, and a second call with the same inputs returns the same path and leaves
  the file system exactly as the first call made it: nothing is added and no content
  changes. A call loses no directory, and every file that existed before it, other than the
  Makefile, keeps its content.
\<close>

theorem C5_ensure_is_idempotent:
  "fst (ensure L no_fault pipeline_root ps t fs) = Inr (execution_directory L pipeline_root)
   \<and> ensure L no_fault pipeline_root ps t (snd (ensure L no_fault pipeline_root ps t fs))
       = (Inr (execution_directory L pipeline_root), snd (ensure L no_fault pipeline_root ps t fs))
   \<and> dirs fs \<subseteq> dirs (snd (ensure L no_fault pipeline_root ps t fs))
   \<and> (\<forall>p\<in>dom (files fs). p \<noteq> execution_directory L pipeline_root @ [''Makefile''] \<longrightarrow>
         files (snd (ensure L no_fault pipeline_root ps t fs)) p = files fs p)"
  by (simp add: ensure_no_fault fold_prefix_absorbed dirs_fold files_fold_other)

text \<open>
  The test's setting: after the first call the Makefile and the output directory of
  \<^verbatim>\<open>test_step\<close> exist, and the second call returns the same path and changes nothing.
\<close>

theorem C5_witness:
  "fst (ensure test_layout no_fault [''tmp''] [test_step] ''regression/v1'' empty_filesystem)
     = Inr [''home'', ''.mlflow'', ''pipelines'', ''tmp'']
   \<and> ensure test_layout no_fault [''tmp''] [test_step] ''regression/v1''
        (snd (ensure test_layout no_fault [''tmp''] [test_step] ''regression/v1'' empty_filesystem))
     = (Inr [''home'', ''.mlflow'', ''pipelines'', ''tmp''],
        snd (ensure test_layout no_fault [''tmp''] [test_step] ''regression/v1'' empty_filesystem))
   \<and> files (snd (ensure test_layout no_fault [''tmp''] [test_step] ''regression/v1''
                     empty_filesystem))
         [''home'', ''.mlflow'', ''pipelines'', ''tmp'', ''Makefile'']
     = Some ''# rules for test_step''
   \<and> [''home'', ''.mlflow'', ''pipelines'', ''tmp'', ''steps'', ''test_step'', ''outputs'']
       \<in> dirs (snd (ensure test_layout no_fault [''tmp''] [test_step] ''regression/v1''
                       empty_filesystem))"
proof -
  have path: "execution_directory test_layout [''tmp''] = [''home'', ''.mlflow'', ''pipelines'', ''tmp'']"
    by (simp add: test_layout_def)
  have made: "files (snd (ensure test_layout no_fault [''tmp''] [test_step] ''regression/v1''
                     empty_filesystem))
         [''home'', ''.mlflow'', ''pipelines'', ''tmp'', ''Makefile'']
     = Some ''# rules for test_step''"
    by (simp add: ensure_def stages_def test_layout_def no_fault_def test_step_def
          makedirs_def write_file_def create_if_missing_def empty_filesystem_def)
  have outputs: "[''home'', ''.mlflow'', ''pipelines'', ''tmp'', ''steps'', ''test_step'', ''outputs'']
       \<in> dirs (snd (ensure test_layout no_fault [''tmp''] [test_step] ''regression/v1''
                       empty_filesystem))"
    by (simp add: ensure_def stages_def test_layout_def no_fault_def test_step_def
          makedirs_def write_file_def create_if_missing_def empty_filesystem_def)
  from C5_ensure_is_idempotent [of test_layout "[''tmp'']" "[test_step]" "''regression/v1''"
      empty_filesystem] made outputs
  show ?thesis by (simp add: path)
qed

text \<open>What a call without failure leaves behind: everything the stages make.\<close>

lemma ensure_no_fault_complete:
  assumes fs2_def: "fs2 = snd (ensure L no_fault pipeline_root ps t fs)"
  shows "set (prefixes (execution_directory L pipeline_root)) \<subseteq> dirs fs2"
    and "files fs2 (execution_directory L pipeline_root @ [''Makefile''])
           = Some (build_description L pipeline_root (map name ps) t)"
    and "\<forall>st\<in>set ps. set (prefixes (execution_directory L pipeline_root
                                         @ [''steps'', name st, ''outputs''])) \<subseteq> dirs fs2"
    and "\<forall>(rel, content)\<in>set (stub_files L t).
           pipeline_root @ rel \<in> dom (files fs2)
           \<and> set (prefixes (butlast (pipeline_root @ rel))) \<subseteq> dirs fs2"
proof -
  let ?ap = "apply_stage L pipeline_root ps t"
  have fs2: "fs2 = fold ?ap (stages L ps t) fs"
    by (simp add: fs2_def ensure_no_fault)
  have complete: "s \<in> set (stages L ps t) \<Longrightarrow> ?ap s fs2 = fs2" for s
    unfolding fs2 by (rule fold_all_done)
  have "BaseDirectory \<in> set (stages L ps t)" by (simp add: stages_def)
  from complete [OF this] show "set (prefixes (execution_directory L pipeline_root)) \<subseteq> dirs fs2"
    by (simp add: makedirs_done)
  have "BuildDescription \<in> set (stages L ps t)" by (simp add: stages_def)
  from complete [OF this] show "files fs2 (execution_directory L pipeline_root @ [''Makefile''])
           = Some (build_description L pipeline_root (map name ps) t)"
    by (simp add: write_file_done)
  show "\<forall>st\<in>set ps. set (prefixes (execution_directory L pipeline_root
                                         @ [''steps'', name st, ''outputs''])) \<subseteq> dirs fs2"
  proof
    fix st assume "st \<in> set ps"
    then have "StepOutputDirectory (name st) \<in> set (stages L ps t)" by (simp add: stages_def)
    from complete [OF this] show "set (prefixes (execution_directory L pipeline_root
                                         @ [''steps'', name st, ''outputs''])) \<subseteq> dirs fs2"
      by (simp add: makedirs_done)
  qed
  show "\<forall>(rel, content)\<in>set (stub_files L t).
           pipeline_root @ rel \<in> dom (files fs2)
           \<and> set (prefixes (butlast (pipeline_root @ rel))) \<subseteq> dirs fs2"
  proof (clarify)
    fix rel content assume "(rel, content) \<in> set (stub_files L t)"
    then have "StepStub rel content \<in> set (stages L ps t)" by (force simp: stages_def)
    from complete [OF this] have "set (prefixes (butlast (pipeline_root @ rel))) \<subseteq> dirs fs2
        \<and> pipeline_root @ rel \<in> dom (files fs2)"
      by (simp add: stub_done)
    then show "pipeline_root @ rel \<in> dom (files fs2)
           \<and> set (prefixes (butlast (pipeline_root @ rel))) \<subseteq> dirs fs2" by blast
  qed
qed

text \<open>
  C6. When some stage fails in a call of \<open>ensure\<close>, the call raises the exception of the
  first stage that fails, and the file system is the one the stages before it produced,
  with nothing undone. A second call with the same inputs in which nothing fails then
  returns the execution directory; the stages that had completed change nothing in it, so
  that its effect is that of the failed stage and the stages after it; it ends in the state
  that a call without failure would have reached from the start; it loses no directory and
  changes no existing file's content; and after it the execution directory, the Makefile
  with the generated text, the output directory of every step and every stub exist.
\<close>

theorem C6_ensure_resumes_after_failure:
  assumes failing: "\<exists>s\<in>set (stages L ps t). fault s \<noteq> None"
  shows "(\<exists>pre s post e.
            stages L ps t = pre @ s # post \<and> (\<forall>x\<in>set pre. fault x = None) \<and> fault s = Some e
            \<and> ensure L fault pipeline_root ps t fs
                = (Inl e, fold (apply_stage L pipeline_root ps t) pre fs)
            \<and> (\<forall>x\<in>set pre. apply_stage L pipeline_root ps t x
                                (snd (ensure L fault pipeline_root ps t fs))
                              = snd (ensure L fault pipeline_root ps t fs))
            \<and> ensure L no_fault pipeline_root ps t (snd (ensure L fault pipeline_root ps t fs))
                = (Inr (execution_directory L pipeline_root),
                   fold (apply_stage L pipeline_root ps t) (s # post)
                     (snd (ensure L fault pipeline_root ps t fs))))
         \<and> ensure L no_fault pipeline_root ps t (snd (ensure L fault pipeline_root ps t fs))
             = ensure L no_fault pipeline_root ps t fs
         \<and> dirs (snd (ensure L fault pipeline_root ps t fs))
             \<subseteq> dirs (snd (ensure L no_fault pipeline_root ps t
                              (snd (ensure L fault pipeline_root ps t fs))))
         \<and> (\<forall>p\<in>dom (files (snd (ensure L fault pipeline_root ps t fs))).
               p \<noteq> execution_directory L pipeline_root @ [''Makefile''] \<longrightarrow>
               files (snd (ensure L no_fault pipeline_root ps t
                             (snd (ensure L fault pipeline_root ps t fs)))) p
                 = files (snd (ensure L fault pipeline_root ps t fs)) p)
         \<and> set (prefixes (execution_directory L pipeline_root))
             \<subseteq> dirs (snd (ensure L no_fault pipeline_root ps t
                              (snd (ensure L fault pipeline_root ps t fs))))
         \<and> files (snd (ensure L no_fault pipeline_root ps t
                         (snd (ensure L fault pipeline_root ps t fs))))
               (execution_directory L pipeline_root @ [''Makefile''])
             = Some (build_description L pipeline_root (map name ps) t)
         \<and> (\<forall>st\<in>set ps.
               set (prefixes (execution_directory L pipeline_root @ [''steps'', name st, ''outputs'']))
               \<subseteq> dirs (snd (ensure L no_fault pipeline_root ps t
                                (snd (ensure L fault pipeline_root ps t fs)))))
         \<and> (\<forall>(rel, content)\<in>set (stub_files L t).
               pipeline_root @ rel
                 \<in> dom (files (snd (ensure L no_fault pipeline_root ps t
                                       (snd (ensure L fault pipeline_root ps t fs)))))
               \<and> set (prefixes (butlast (pipeline_root @ rel)))
                   \<subseteq> dirs (snd (ensure L no_fault pipeline_root ps t
                                    (snd (ensure L fault pipeline_root ps t fs)))))"
proof -
  let ?ap = "apply_stage L pipeline_root ps t"
  let ?fs1 = "snd (ensure L fault pipeline_root ps t fs)"
  from first_fault_exists [OF failing] obtain pre s post e where
    split: "stages L ps t = pre @ s # post" and ok: "\<forall>x\<in>set pre. fault x = None"
    and bad: "fault s = Some e"
    by blast
  have raised: "ensure L fault pipeline_root ps t fs = (Inl e, fold ?ap pre fs)"
    by (simp add: ensure_def split run_stages_first_fault [OF ok bad])
  then have fs1: "?fs1 = fold ?ap pre fs" by simp
  have completed: "\<forall>x\<in>set pre. ?ap x ?fs1 = ?fs1"
    by (simp add: fs1 fold_all_done)
  from completed have absorbed: "fold ?ap pre ?fs1 = ?fs1" by (rule fold_done_id)
  have retry: "ensure L no_fault pipeline_root ps t ?fs1
      = (Inr (execution_directory L pipeline_root), fold ?ap (s # post) ?fs1)"
    using absorbed by (simp add: ensure_no_fault split)
  have same: "ensure L no_fault pipeline_root ps t ?fs1 = ensure L no_fault pipeline_root ps t fs"
    using absorbed by (simp add: ensure_no_fault split fs1)
  have grows: "dirs ?fs1 \<subseteq> dirs (snd (ensure L no_fault pipeline_root ps t ?fs1))"
    by (simp add: ensure_no_fault dirs_fold)
  have kept: "\<forall>p\<in>dom (files ?fs1). p \<noteq> execution_directory L pipeline_root @ [''Makefile''] \<longrightarrow>
               files (snd (ensure L no_fault pipeline_root ps t ?fs1)) p = files ?fs1 p"
    by (simp add: ensure_no_fault files_fold_other)
  from split ok bad raised completed retry have
    "\<exists>pre s post e.
            stages L ps t = pre @ s # post \<and> (\<forall>x\<in>set pre. fault x = None) \<and> fault s = Some e
            \<and> ensure L fault pipeline_root ps t fs = (Inl e, fold ?ap pre fs)
            \<and> (\<forall>x\<in>set pre. ?ap x ?fs1 = ?fs1)
            \<and> ensure L no_fault pipeline_root ps t ?fs1
                = (Inr (execution_directory L pipeline_root), fold ?ap (s # post) ?fs1)"
    by blast
  with same grows kept ensure_no_fault_complete [OF refl, where L = L and pipeline_root = pipeline_root
      and ps = ps and t = t and fs = ?fs1]
  show ?thesis by blast
qed

text \<open>
  The two failures of the test. When the Makefile cannot be created, the execution
  directory exists and holds no Makefile, and the second call creates it. When the step's
  output directory cannot be created, the Makefile is there and the output directory is
  not, and the second call creates it. Both second calls end as a call without failure
  does.
\<close>

theorem C6_witness:
  "fst (ensure test_layout makefile_fault [''tmp''] [test_step] ''regression/v1'' empty_filesystem)
     = Inl (Exception ''Makefile creation failed'')
   \<and> files (snd (ensure test_layout makefile_fault [''tmp''] [test_step] ''regression/v1''
                     empty_filesystem))
         [''home'', ''.mlflow'', ''pipelines'', ''tmp'', ''Makefile''] = None
   \<and> [''home'', ''.mlflow'', ''pipelines'', ''tmp'']
       \<in> dirs (snd (ensure test_layout makefile_fault [''tmp''] [test_step] ''regression/v1''
                       empty_filesystem))
   \<and> files (snd (ensure test_layout no_fault [''tmp''] [test_step] ''regression/v1''
                     (snd (ensure test_layout makefile_fault [''tmp''] [test_step]
                             ''regression/v1'' empty_filesystem))))
         [''home'', ''.mlflow'', ''pipelines'', ''tmp'', ''Makefile'']
     = Some ''# rules for test_step''
   \<and> ensure test_layout no_fault [''tmp''] [test_step] ''regression/v1''
        (snd (ensure test_layout makefile_fault [''tmp''] [test_step] ''regression/v1''
                empty_filesystem))
     = ensure test_layout no_fault [''tmp''] [test_step] ''regression/v1'' empty_filesystem
   \<and> fst (ensure test_layout step_directory_fault [''tmp''] [test_step] ''regression/v1''
            empty_filesystem)
     = Inl (Exception ''Step directory creation failed'')
   \<and> files (snd (ensure test_layout step_directory_fault [''tmp''] [test_step] ''regression/v1''
                     empty_filesystem))
         [''home'', ''.mlflow'', ''pipelines'', ''tmp'', ''Makefile'']
     = Some ''# rules for test_step''
   \<and> [''home'', ''.mlflow'', ''pipelines'', ''tmp'', ''steps'', ''test_step'', ''outputs'']
       \<notin> dirs (snd (ensure test_layout step_directory_fault [''tmp''] [test_step]
                       ''regression/v1'' empty_filesystem))
   \<and> [''home'', ''.mlflow'', ''pipelines'', ''tmp'', ''steps'', ''test_step'', ''outputs'']
       \<in> dirs (snd (ensure test_layout no_fault [''tmp''] [test_step] ''regression/v1''
                       (snd (ensure test_layout step_directory_fault [''tmp''] [test_step]
                               ''regression/v1'' empty_filesystem))))
   \<and> ensure test_layout no_fault [''tmp''] [test_step] ''regression/v1''
        (snd (ensure test_layout step_directory_fault [''tmp''] [test_step] ''regression/v1''
                empty_filesystem))
     = ensure test_layout no_fault [''tmp''] [test_step] ''regression/v1'' empty_filesystem"
proof -
  let ?run = "\<lambda>fault. ensure test_layout fault [''tmp''] [test_step] ''regression/v1''"
  let ?m = "snd (?run makefile_fault empty_filesystem)"
  let ?s = "snd (?run step_directory_fault empty_filesystem)"
  have m: "fst (?run makefile_fault empty_filesystem) = Inl (Exception ''Makefile creation failed'')"
    by (simp add: ensure_def stages_def test_layout_def makefile_fault_def)
  have s: "fst (?run step_directory_fault empty_filesystem)
             = Inl (Exception ''Step directory creation failed'')"
    by (simp add: ensure_def stages_def test_layout_def step_directory_fault_def)
  have none: "files ?m [''home'', ''.mlflow'', ''pipelines'', ''tmp'', ''Makefile''] = None"
    by (simp add: ensure_def stages_def test_layout_def makefile_fault_def test_step_def
          makedirs_def write_file_def create_if_missing_def empty_filesystem_def)
  have base: "[''home'', ''.mlflow'', ''pipelines'', ''tmp''] \<in> dirs ?m"
    by (simp add: ensure_def stages_def test_layout_def makefile_fault_def test_step_def
          makedirs_def write_file_def create_if_missing_def empty_filesystem_def)
  have made: "files ?s [''home'', ''.mlflow'', ''pipelines'', ''tmp'', ''Makefile'']
     = Some ''# rules for test_step''"
    by (simp add: ensure_def stages_def test_layout_def step_directory_fault_def test_step_def
          makedirs_def write_file_def create_if_missing_def empty_filesystem_def)
  have missing: "[''home'', ''.mlflow'', ''pipelines'', ''tmp'', ''steps'', ''test_step'', ''outputs'']
       \<notin> dirs ?s"
    by (simp add: ensure_def stages_def test_layout_def step_directory_fault_def test_step_def
          makedirs_def write_file_def create_if_missing_def empty_filesystem_def)
  have fm: "\<exists>x\<in>set (stages test_layout [test_step] ''regression/v1''). makefile_fault x \<noteq> None"
    by (simp add: stages_def makefile_fault_def)
  have fs: "\<exists>x\<in>set (stages test_layout [test_step] ''regression/v1'').
              step_directory_fault x \<noteq> None"
    by (simp add: stages_def step_directory_fault_def)
  note a = C6_ensure_resumes_after_failure [OF fm, of "[''tmp'']" empty_filesystem]
  note b = C6_ensure_resumes_after_failure [OF fs, of "[''tmp'']" empty_filesystem]
  from a have a1: "?run no_fault ?m = ?run no_fault empty_filesystem"
    and a2: "files (snd (?run no_fault ?m))
               (execution_directory test_layout [''tmp''] @ [''Makefile''])
             = Some (build_description test_layout [''tmp''] (map name [test_step]) ''regression/v1'')"
    by blast+
  from b have b1: "?run no_fault ?s = ?run no_fault empty_filesystem"
    and b2: "\<forall>st\<in>set [test_step].
               set (prefixes (execution_directory test_layout [''tmp'']
                                @ [''steps'', name st, ''outputs'']))
               \<subseteq> dirs (snd (?run no_fault ?s))"
    by blast+
  from a2 have a3: "files (snd (?run no_fault ?m))
         [''home'', ''.mlflow'', ''pipelines'', ''tmp'', ''Makefile'']
     = Some ''# rules for test_step''"
    by (simp add: test_layout_def test_step_def)
  from b2 have b3: "[''home'', ''.mlflow'', ''pipelines'', ''tmp'', ''steps'', ''test_step'', ''outputs'']
       \<in> dirs (snd (?run no_fault ?s))"
    by (simp add: test_layout_def test_step_def)
  from m none base a3 a1 s made missing b3 b1 show ?thesis by blast
qed

section \<open>The split places each row once\<close>









end
